theory Spec2Isabelle
  imports
    Complex_Main
    "HOL-Library.Sublist"
    "HOL-Library.Char_ord"
    "HOL-Library.List_Lexorder"
    "HOL-Library.Product_Lexorder"
begin

section \<open>Strings\<close>

text \<open>
  A Python \<open>str\<close> is modelled as a \<open>string\<close> whose characters are the code points
  0..255 (ASCII and Latin-1). Text with code points above 255 is outside the model.
\<close>

text \<open>
  \<open>str.lower()\<close> on one code point below 256: the ASCII capitals A..Z and the Latin-1
  capitals 192..222 (except the multiplication sign 215) move up by 32; every other code
  point stays.
\<close>

definition lower_char :: "char \<Rightarrow> char" where
  "lower_char c =
     (let n = (of_char c :: nat)
      in if (65 \<le> n \<and> n \<le> 90) \<or> (192 \<le> n \<and> n \<le> 222 \<and> n \<noteq> 215)
         then char_of (n + 32) else c)"

definition str_lower :: "string \<Rightarrow> string" where
  "str_lower s = map lower_char s"

text \<open>Python's \<open>pattern in text\<close> on strings: \<open>pattern\<close> occurs as a contiguous run.\<close>

fun str_in :: "string \<Rightarrow> string \<Rightarrow> bool" where
  "str_in p [] = (p = [])"
| "str_in p (c # s) = (prefix p (c # s) \<or> str_in p s)"

section \<open>categorizer.py: ExpenseCategorizer\<close>

definition categories :: "string list" where
  "categories =
     [''Food'', ''Transport'', ''Entertainment'', ''Shopping'',
      ''Utilities'', ''Healthcare'', ''Education'', ''Others'']"

text \<open>The dict \<open>category_patterns\<close>, in insertion order (the order \<open>items()\<close> iterates).\<close>

definition category_patterns :: "(string \<times> string list) list" where
  "category_patterns =
     [(''Food'', [''restaurant'', ''food'', ''cafe'', ''starbucks'', ''mcdonald'', ''pizza'',
                  ''grocery'', ''supermarket'']),
      (''Transport'', [''uber'', ''taxi'', ''gas'', ''fuel'', ''parking'', ''metro'', ''bus'',
                       ''train'']),
      (''Entertainment'', [''netflix'', ''spotify'', ''movie'', ''cinema'', ''game'', ''concert'',
                           ''theater'']),
      (''Shopping'', [''amazon'', ''mall'', ''store'', ''shop'', ''purchase'', ''buy'',
                      ''clothes'']),
      (''Utilities'', [''electric'', ''water'', ''internet'', ''phone'', ''rent'', ''bill'']),
      (''Healthcare'', [''hospital'', ''doctor'', ''pharmacy'', ''medical'', ''dental'',
                        ''health'']),
      (''Education'', [''school'', ''college'', ''course'', ''book'', ''education'',
                       ''tuition''])]"

text \<open>
  The inner loop \<open>for pattern in patterns: if pattern in description_lower: return category\<close>:
  does some pattern of this category occur?
\<close>

fun any_pattern_in :: "string list \<Rightarrow> string \<Rightarrow> bool" where
  "any_pattern_in [] dl = False"
| "any_pattern_in (pattern # patterns) dl = (if str_in pattern dl then True else any_pattern_in patterns dl)"

text \<open>The outer loop over the table, with the final \<open>return 'Others'\<close>.\<close>

fun scan_categories :: "(string \<times> string list) list \<Rightarrow> string \<Rightarrow> string" where
  "scan_categories [] dl = ''Others''"
| "scan_categories ((category, patterns) # rest) dl =
     (if any_pattern_in patterns dl then category else scan_categories rest dl)"

definition rule_based_categorization :: "string \<Rightarrow> string" where
  "rule_based_categorization description =
     (let description_lower = str_lower description
      in scan_categories category_patterns description_lower)"

text \<open>Python's \<open>str.strip()\<close>: the white-space code points below 256 are removed at both ends.\<close>

definition is_space :: "char \<Rightarrow> bool" where
  "is_space c =
     (let n = (of_char c :: nat)
      in (9 \<le> n \<and> n \<le> 13) \<or> (28 \<le> n \<and> n \<le> 32) \<or> n = 133 \<or> n = 160)"

definition str_strip :: "string \<Rightarrow> string" where
  "str_strip s = rev (dropWhile is_space (rev (dropWhile is_space s)))"

section \<open>Exceptions\<close>

text \<open>
  \<open>LibraryError\<close> stands for any exception raised inside a call into openai, scikit-learn
  or pandas; the other constructors are the exceptions the repository's own expressions
  raise.
\<close>

datatype error = ValueError string | IndexError | AttributeError | LibraryError string

text \<open>Run \<open>f\<close> on every element in order; the first exception ends the run.\<close>

fun apply_rows :: "('a \<Rightarrow> error + 'b) \<Rightarrow> 'a list \<Rightarrow> error + 'b list" where
  "apply_rows f [] = Inr []"
| "apply_rows f (x # xs) =
     (case f x of
        Inl e \<Rightarrow> Inl e
      | Inr y \<Rightarrow> (case apply_rows f xs of Inl e \<Rightarrow> Inl e | Inr ys \<Rightarrow> Inr (y # ys)))"

section \<open>Floating-point values\<close>

text \<open>
  The value of a double: a finite number, an infinity or NaN. An amount cell of a frame
  is a finite double, modelled by the real number it denotes.
\<close>

datatype fval = Num real | PosInf | NegInf | NaN

section \<open>categorizer.py: the classifiers\<close>

text \<open>
  The request sent to the remote service carries the category list, the description and
  the amount when it is truthy (a double is falsy only when it is zero). The service is a function from the request to an
  exception or a response; a response is the list \<open>choices\<close>, each with the
  \<open>message.content\<close> it holds (\<open>None\<close> when absent).
\<close>

datatype prompt = Prompt "string list" string "fval option"

type_synonym response = "string option list"

type_synonym client = "prompt \<Rightarrow> error + response"

text \<open>
  A scikit-learn object is modelled by the method the repository calls on it: a
  vectorizer by \<open>transform\<close>, a classifier by \<open>predict\<close>; \<open>'f\<close> is the type of feature
  matrices.
\<close>

type_synonym 'f vectorizer_obj = "string list \<Rightarrow> error + 'f"

type_synonym 'f model_obj = "'f \<Rightarrow> error + string list"

record 'f categorizer =
  openai_client :: "client option"
  ml_model :: "'f model_obj option"
  vectorizer :: "'f vectorizer_obj option"

text \<open>The body of the \<open>try\<close> block of \<open>openai_categorization\<close>.\<close>

definition build_prompt :: "string \<Rightarrow> fval option \<Rightarrow> prompt" where
  "build_prompt description amount =
     Prompt categories description
       (if amount \<noteq> None \<and> amount \<noteq> Some (Num 0) then amount else None)"

definition openai_try :: "client \<Rightarrow> string \<Rightarrow> fval option \<Rightarrow> error + string" where
  "openai_try create description amount =
     (let prompt = build_prompt description amount
      in case create prompt of
           Inl e \<Rightarrow> Inl e
         | Inr choices \<Rightarrow>
             (case choices of
                [] \<Rightarrow> Inl IndexError
              | content # _ \<Rightarrow>
                  (case content of
                     None \<Rightarrow> Inl AttributeError
                   | Some text \<Rightarrow>
                       (let category = str_strip text
                        in Inr (if category \<in> set categories then category else ''Others'')))))"

definition openai_categorization ::
  "'f categorizer \<Rightarrow> string \<Rightarrow> fval option \<Rightarrow> error + string" where
  "openai_categorization self description amount =
     (case openai_client self of
        None \<Rightarrow> Inr (rule_based_categorization description)
      | Some create \<Rightarrow>
          (case openai_try create description amount of
             Inl e \<Rightarrow> Inr (rule_based_categorization description)
           | Inr category \<Rightarrow> Inr category))"




section \<open>Tables of transactions\<close>

text \<open>
  A data frame of transactions is a list of rows, in row order. A row has the four
  canonical columns; any further column lives in the record's extension. A date cell is
  either still text or an already parsed timestamp. Amounts are real numbers: the model
  computes exactly where the program computes in floating point, and has no NaN cell.
\<close>

datatype date_val = DateText string | Timestamp int

record transaction =
  date :: date_val
  description :: string
  amount :: real
  category :: string


definition set_date :: "'a transaction_scheme list \<Rightarrow> date_val list \<Rightarrow> 'a transaction_scheme list" where
  "set_date df col = map2 (\<lambda>row d. row\<lparr>date := d\<rparr>) df col"

subsection \<open>train_ml_model\<close>

text \<open>
  The scikit-learn calls of \<open>train_ml_model\<close>, as parameters: the freshly constructed
  (unfitted) vectorizer and classifier, \<open>fit_transform\<close> (which yields the fitted
  vectorizer and the feature matrix, or raises), \<open>train_test_split\<close> and \<open>fit\<close>.
\<close>

record 'f sklearn =
  TfidfVectorizer :: "'f vectorizer_obj"
  fit_transform :: "string list \<Rightarrow> error + ('f vectorizer_obj \<times> 'f)"
  train_test_split :: "'f \<Rightarrow> string list \<Rightarrow> error + ('f \<times> 'f \<times> string list \<times> string list)"
  MultinomialNB :: "'f model_obj"
  fit :: "'f \<Rightarrow> string list \<Rightarrow> error + 'f model_obj"

text \<open>
  The result is what the call returns or raises, together with the object's slots after
  the call: an assignment made before an exception stays made. The accuracy is only
  printed and is left out.
\<close>

definition train_ml_model ::
  "'f sklearn \<Rightarrow> 'f categorizer \<Rightarrow> 'a transaction_scheme list \<Rightarrow> (error + bool) \<times> 'f categorizer" where
  "train_ml_model sk self df =
     (if length df < 20 then (Inr False, self)
      else
        let X = map description df;
            y = map category df;
            self1 = self\<lparr>vectorizer := Some (TfidfVectorizer sk)\<rparr>
        in case fit_transform sk X of
             Inl e \<Rightarrow> (Inl e, self1)
           | Inr (fitted, X_vectorized) \<Rightarrow>
               (let self2 = self1\<lparr>vectorizer := Some fitted\<rparr>
                in case train_test_split sk X_vectorized y of
                     Inl e \<Rightarrow> (Inl e, self2)
                   | Inr (X_train, X_test, y_train, y_test) \<Rightarrow>
                       (let self3 = self2\<lparr>ml_model := Some (MultinomialNB sk)\<rparr>
                        in case fit sk X_train y_train of
                             Inl e \<Rightarrow> (Inl e, self3)
                           | Inr predict \<Rightarrow>
                               (let self4 = self3\<lparr>ml_model := Some predict\<rparr>
                                in case predict X_test of
                                     Inl e \<Rightarrow> (Inl e, self4)
                                   | Inr y_pred \<Rightarrow> (Inr True, self4)))))"

subsection \<open>batch_categorize\<close>



section \<open>insights.py: the analytics\<close>

text \<open>
  pandas computes in doubles. The rounded operations are parameters of the model:
  \<open>Series.mean()\<close> on at least one value, \<open>Series.std()\<close> on at least two, and the
  rounded product and sum of two finite doubles (each may overflow to an infinity).
\<close>

record ieee =
  np_mean :: "real list \<Rightarrow> fval"
  np_std :: "real list \<Rightarrow> fval"
  fl_mul :: "real \<Rightarrow> real \<Rightarrow> fval"
  fl_add :: "real \<Rightarrow> real \<Rightarrow> fval"

text \<open>
  \<open>Series.mean()\<close> and \<open>Series.std()\<close> (pandas' default, the sample deviation with
  \<open>n - 1\<close> in the denominator): the mean of no value is NaN, and so is the deviation of
  fewer than two.
\<close>

definition series_mean :: "ieee \<Rightarrow> real list \<Rightarrow> fval" where
  "series_mean fp xs = (if xs = [] then NaN else np_mean fp xs)"

definition series_std :: "ieee \<Rightarrow> real list \<Rightarrow> fval" where
  "series_std fp xs = (if length xs < 2 then NaN else np_std fp xs)"

text \<open>
  Multiplication and addition of doubles: NaN spreads, an infinity times zero and the
  sum of opposite infinities are NaN, an infinity otherwise wins, and two finite values
  are combined by the rounded operation.
\<close>

fun float_mul :: "ieee \<Rightarrow> fval \<Rightarrow> fval \<Rightarrow> fval" where
  "float_mul fp (Num x) (Num y) = fl_mul fp x y"
| "float_mul fp NaN b = NaN"
| "float_mul fp a NaN = NaN"
| "float_mul fp (Num x) PosInf = (if x = 0 then NaN else if 0 < x then PosInf else NegInf)"
| "float_mul fp (Num x) NegInf = (if x = 0 then NaN else if 0 < x then NegInf else PosInf)"
| "float_mul fp PosInf (Num y) = (if y = 0 then NaN else if 0 < y then PosInf else NegInf)"
| "float_mul fp NegInf (Num y) = (if y = 0 then NaN else if 0 < y then NegInf else PosInf)"
| "float_mul fp PosInf PosInf = PosInf"
| "float_mul fp PosInf NegInf = NegInf"
| "float_mul fp NegInf PosInf = NegInf"
| "float_mul fp NegInf NegInf = PosInf"

fun float_add :: "ieee \<Rightarrow> fval \<Rightarrow> fval \<Rightarrow> fval" where
  "float_add fp (Num x) (Num y) = fl_add fp x y"
| "float_add fp NaN b = NaN"
| "float_add fp a NaN = NaN"
| "float_add fp PosInf NegInf = NaN"
| "float_add fp NegInf PosInf = NaN"
| "float_add fp PosInf b = PosInf"
| "float_add fp NegInf b = NegInf"
| "float_add fp (Num x) b = b"

text \<open>\<open>amount > threshold\<close> on doubles is exact; every comparison with NaN is false.\<close>

fun float_gt :: "real \<Rightarrow> fval \<Rightarrow> bool" where
  "float_gt x (Num t) = (t < x)"
| "float_gt x NegInf = True"
| "float_gt x PosInf = False"
| "float_gt x NaN = False"

text \<open>Lines 143 to 145: the threshold computed from the amount column.\<close>

definition anomaly_threshold :: "ieee \<Rightarrow> real list \<Rightarrow> fval" where
  "anomaly_threshold fp amounts =
     (let mean_spending = series_mean fp amounts;
          std_spending = series_std fp amounts
      in float_add fp mean_spending (float_mul fp (Num 2) std_spending))"

text \<open>
  \<open>pd.to_datetime\<close> on one cell: a timestamp stays, text is parsed by the library's
  parser \<open>parse\<close> (a parameter), and text it cannot parse raises.
\<close>

definition to_datetime :: "(string \<Rightarrow> int option) \<Rightarrow> date_val \<Rightarrow> error + date_val" where
  "to_datetime parse d =
     (case d of
        Timestamp t \<Rightarrow> Inr (Timestamp t)
      | DateText s \<Rightarrow>
          (case parse s of
             None \<Rightarrow> Inl (LibraryError ''to_datetime'')
           | Some t \<Rightarrow> Inr (Timestamp t)))"

text \<open>
  Every analytics operation returns its result (or the exception) together with the
  caller's frame after the call. \<open>detect_spending_anomalies\<close> first assigns the parsed
  dates to the \<open>date\<close> column of the frame it was given. The returned frame keeps the
  four named columns.
\<close>

definition detect_spending_anomalies ::
  "ieee \<Rightarrow> (string \<Rightarrow> int option) \<Rightarrow> 'a transaction_scheme list \<Rightarrow>
     (error + transaction list) \<times> 'a transaction_scheme list" where
  "detect_spending_anomalies fp parse df =
     (case apply_rows (to_datetime parse) (map date df) of
        Inl e \<Rightarrow> (Inl e, df)
      | Inr dates \<Rightarrow>
          (let df' = set_date df dates;
               threshold = anomaly_threshold fp (map amount df');
               anomalies = filter (\<lambda>row. float_gt (amount row) threshold) df'
           in (Inr (map transaction.truncate anomalies), df')))"


text \<open>
  \<open>df.groupby(keys).size()\<close>: one entry per distinct key, in sorted key order, with the
  number of rows that carry the key.
\<close>

definition groupby_size :: "('k :: linorder) list \<Rightarrow> ('k \<times> nat) list" where
  "groupby_size keys = map (\<lambda>k. (k, count_list keys k)) (sort (remdups keys))"

definition detect_recurring_transactions ::
  "'a transaction_scheme list \<Rightarrow>
     (error + ((string \<times> real) \<times> nat) list) \<times> 'a transaction_scheme list" where
  "detect_recurring_transactions df =
     (let recurring = groupby_size (map (\<lambda>row. (description row, amount row)) df)
      in (Inr (filter (\<lambda>(k, n). n > 2) recurring), df))"

section \<open>utils.py: DataProcessor.standardize_columns\<close>

text \<open>
  Here a data frame is the list of its columns, each a label with the column's cells, in
  column order; two columns may carry the same label.
\<close>

definition column_mapping :: "(string \<times> string) list" where
  "column_mapping =
     [(''date'', ''date''),
      (''transaction description'', ''description''),
      (''category'', ''category''),
      (''amount'', ''amount''),
      (''type'', ''type'')]"

definition required_columns :: "string list" where
  "required_columns = [''date'', ''description'', ''category'', ''amount'']"

text \<open>\<open>df.rename(columns=column_mapping)\<close> on one label: labels outside the dict stay.\<close>

definition rename :: "string \<Rightarrow> string" where
  "rename label = (case map_of column_mapping label of None \<Rightarrow> label | Some new \<Rightarrow> new)"

text \<open>
  The text of a list of strings inside an f-string: \<open>['date', 'amount']\<close>. The labels
  printed here are required column names, which hold no quote, backslash or control
  character, so each is printed between single quotes as it is.
\<close>

definition repr_str :: "string \<Rightarrow> string" where
  "repr_str s = [CHR 0x27] @ s @ [CHR 0x27]"

fun join :: "string \<Rightarrow> string list \<Rightarrow> string" where
  "join sep [] = []"
| "join sep [s] = s"
| "join sep (s # rest) = s @ sep @ join sep rest"

definition repr_list :: "string list \<Rightarrow> string" where
  "repr_list xs = ''['' @ join '', '' (map repr_str xs) @ '']''"

text \<open>\<open>df[required_columns]\<close>: for each label in turn, every column that carries it.\<close>

definition select_columns :: "string list \<Rightarrow> (string \<times> 'c) list \<Rightarrow> (string \<times> 'c) list" where
  "select_columns labels df = concat (map (\<lambda>label. filter (\<lambda>col. fst col = label) df) labels)"

text \<open>
  The result is the returned frame (or the exception) together with the caller's frame
  after the call: the labels are lower-cased and stripped in place, the renaming works on
  a new frame. Column labels are strings. A frame without any column carries pandas'
  default integer column index, on which the \<open>.str\<close> accessor of line 42 raises
  \<open>AttributeError\<close>.
\<close>

definition standardize_columns ::
  "(string \<times> 'c) list \<Rightarrow> (error + (string \<times> 'c) list) \<times> (string \<times> 'c) list" where
  "standardize_columns df =
     (if df = [] then (Inl AttributeError, df)
      else
        let df1 = map (\<lambda>(label, cells). (str_strip (str_lower label), cells)) df;
            df2 = map (\<lambda>(label, cells). (rename label, cells)) df1;
            missing_cols = filter (\<lambda>col. col \<notin> set (map fst df2)) required_columns
        in if missing_cols \<noteq> []
           then (Inl (ValueError (''Missing required columns: '' @ repr_list missing_cols)), df1)
           else (Inr (select_columns required_columns df2), df1))"

section \<open>Concrete inputs\<close>

text \<open>
  Remote services with a fixed behaviour: one answers \<open>Travel\<close>, one answers \<open>Food\<close>
  with white space around it, one times out, one answers with no choice at all.
\<close>

definition reply_travel :: client where
  "reply_travel prompt = Inr [Some ''Travel'']"

definition reply_food :: client where
  "reply_food prompt = Inr [Some ('' Food'' @ [CHR 0x0A])]"

definition reply_timeout :: client where
  "reply_timeout prompt = Inl (LibraryError ''APITimeoutError'')"

definition reply_empty :: client where
  "reply_empty prompt = Inr []"

text \<open>An untrained categorizer with the given remote client.\<close>

definition with_client :: "client option \<Rightarrow> 'f categorizer" where
  "with_client c = \<lparr>openai_client = c, ml_model = None, vectorizer = None\<rparr>"

definition offline :: "unit categorizer" where
  "offline = with_client None"

definition remote :: "client \<Rightarrow> unit categorizer" where
  "remote c = with_client (Some c)"

text \<open>
  A stand-in for scikit-learn, for concrete runs only. Its feature matrix is the list of
  documents. Fitting the vectorizer raises when every document is empty (the library's
  empty-vocabulary error); the split keeps the last fifth for testing; the fitted
  classifier predicts the first training label for every row. Unfitted objects raise.
\<close>

definition toy_sklearn :: "string list sklearn" where
  "toy_sklearn =
     \<lparr>TfidfVectorizer = (\<lambda>docs. Inl (LibraryError ''NotFittedError'')),
      fit_transform = (\<lambda>docs. if concat docs = []
                              then Inl (ValueError ''empty vocabulary'')
                              else Inr (\<lambda>docs'. Inr docs', docs)),
      train_test_split = (\<lambda>X y. let k = length y - length y div 5
                                in Inr (take k X, drop k X, take k y, drop k y)),
      MultinomialNB = (\<lambda>X. Inl (LibraryError ''NotFittedError'')),
      fit = (\<lambda>X y. case y of
                      [] \<Rightarrow> Inl (ValueError ''no samples'')
                    | label # _ \<Rightarrow> Inr (\<lambda>X'. Inr (map (\<lambda>_. label) X')))\<rparr>"



definition row :: "string \<Rightarrow> real \<Rightarrow> string \<Rightarrow> transaction" where
  "row d a c = \<lparr>date = Timestamp 0, description = d, amount = a, category = c\<rparr>"

definition groceries20 :: "transaction list" where
  "groceries20 = replicate 20 (row ''weekly shop'' 42 ''Groceries'')"

definition blank20 :: "transaction list" where
  "blank20 = replicate 20 (row [] 42 ''Food'')"



definition one_parse :: "string \<Rightarrow> int option" where
  "one_parse s = (if s = ''2024-01-15'' then Some 1705276800 else None)"

definition coffee_and_tea :: "transaction list" where
  "coffee_and_tea =
     [row ''Coffee'' 5 ''Food'', row ''Tea'' 3 ''Food'', row ''Coffee'' 5 ''Food'',
      row ''Tea'' 3 ''Food'', row ''Coffee'' 5 ''Food'']"





definition full_frame :: "(string \<times> nat) list" where
  "full_frame =
     [(''Account'', 1), (''Amount'', 2), (''Transaction Description'', 3), (''Type'', 4),
      (''Date'', 5), (''Category'', 6)]"

definition two_dates_frame :: "(string \<times> nat) list" where
  "two_dates_frame =
     [(''Date'', 1), (''date'', 2), (''description'', 3), (''category'', 4), (''amount'', 5)]"

definition dated :: "string \<Rightarrow> transaction" where
  "dated s = \<lparr>date = DateText s, description = ''rent'', amount = 900, category = ''Utilities''\<rparr>"


section \<open>Facts about strings\<close>

lemma str_in_sublist: "str_in p s = sublist p s"
  by (induction s) (auto simp: sublist_Cons_right)

lemma str_in_append: "str_in p (a @ p @ b)"
  by (simp add: str_in_sublist)

lemma any_pattern_in_iff: "any_pattern_in ps dl = (\<exists>p \<in> set ps. str_in p dl)"
  by (induction ps) auto

section \<open>The rule classifier\<close>

lemma scan_categories_first:
  assumes "\<forall>(c', ps') \<in> set before. \<not> any_pattern_in ps' dl"
      and "any_pattern_in ps dl"
  shows "scan_categories (before @ (c, ps) # rest) dl = c"
  using assms by (induction before) auto

text \<open>
  C3 (amended). The rule classifier returns the category of the first table entry, in the
  table's order, one of whose keywords occurs in the lower-cased description. So when a
  description holds a keyword \<open>p\<close> of the entry \<open>c\<close>, spelt \<open>k\<close> in any letter case and
  with any text \<open>a\<close> before and \<open>b\<close> after it, the result is \<open>c\<close> provided that no keyword
  of an earlier entry occurs in the lower-cased description.
\<close>

theorem rule_based_first_match:
  assumes "category_patterns = before @ (c, ps) # rest"
      and "p \<in> set ps" and "str_lower k = p"
      and "\<forall>(c', ps') \<in> set before. \<forall>p' \<in> set ps'. \<not> str_in p' (str_lower (a @ k @ b))"
  shows "rule_based_categorization (a @ k @ b) = c"
proof -
  let ?dl = "str_lower (a @ k @ b)"
  have "?dl = str_lower a @ p @ str_lower b"
    using assms(3) by (simp add: str_lower_def)
  then have "str_in p ?dl"
    by (simp add: str_in_append)
  with assms(2) have hit: "any_pattern_in ps ?dl"
    by (auto simp: any_pattern_in_iff)
  have miss: "\<forall>(c', ps') \<in> set before. \<not> any_pattern_in ps' ?dl"
    using assms(4) by (auto simp: any_pattern_in_iff)
  show ?thesis
    unfolding rule_based_categorization_def Let_def assms(1)
    by (rule scan_categories_first [OF miss hit])
qed

theorem rule_based_first_match_witness:
  "rule_based_categorization (''Paid '' @ ''UBER'' @ '' ride home'') = ''Transport''"
proof -
  have 1: "category_patterns =
      [(''Food'', [''restaurant'', ''food'', ''cafe'', ''starbucks'', ''mcdonald'', ''pizza'',
                   ''grocery'', ''supermarket''])]
      @ (''Transport'', [''uber'', ''taxi'', ''gas'', ''fuel'', ''parking'', ''metro'', ''bus'',
                         ''train'']) # tl (tl category_patterns)"
    by (simp add: category_patterns_def)
  have 2: "''uber'' \<in> set [''uber'', ''taxi'', ''gas'', ''fuel'', ''parking'', ''metro'', ''bus'',
                           ''train'']"
    by simp
  have 3: "str_lower ''UBER'' = ''uber''"
    by code_simp
  have 4: "\<forall>(c', ps') \<in> set [(''Food'', [''restaurant'', ''food'', ''cafe'', ''starbucks'',
                                         ''mcdonald'', ''pizza'', ''grocery'', ''supermarket''])].
             \<forall>p' \<in> set ps'. \<not> str_in p' (str_lower (''Paid '' @ ''UBER'' @ '' ride home''))"
    by code_simp
  show ?thesis
    by (rule rule_based_first_match [OF 1 2 3 4])
qed

text \<open>
  C3 as stated fails: this description contains the keyword \<open>uber\<close>, and the result is
  not \<open>Transport\<close>, because the Food keyword \<open>restaurant\<close> is tried first.
\<close>

theorem rule_based_uber_counterexample:
  "str_in ''uber'' (str_lower ''Uber to restaurant'') \<and>
   rule_based_categorization ''Uber to restaurant'' \<noteq> ''Transport''"
  by code_simp

section \<open>The semantic classifier\<close>

text \<open>
  C1 (amended). \<open>openai_categorization\<close> always returns a category and never an
  exception. It returns the rule classifier's result when no client is configured, when
  the call raises, and when the response has no choice or no content. When the response
  has content, the stripped content is returned if it is one of the categories, and
  \<open>Others\<close> otherwise.
\<close>

theorem openai_categorization_outcome:
  "(openai_client self = None \<longrightarrow>
      openai_categorization self d a = Inr (rule_based_categorization d)) \<and>
   (\<forall>create. openai_client self = Some create \<and>
      (\<exists>e. create (build_prompt d a) = Inl e) \<longrightarrow>
      openai_categorization self d a = Inr (rule_based_categorization d)) \<and>
   (\<forall>create more. openai_client self = Some create \<and>
      (create (build_prompt d a) = Inr [] \<or> create (build_prompt d a) = Inr (None # more)) \<longrightarrow>
      openai_categorization self d a = Inr (rule_based_categorization d)) \<and>
   (\<forall>create text more. openai_client self = Some create \<and>
      create (build_prompt d a) = Inr (Some text # more) \<longrightarrow>
      openai_categorization self d a =
        Inr (if str_strip text \<in> set categories then str_strip text else ''Others'')) \<and>
   (\<exists>c. openai_categorization self d a = Inr c)"
  by (auto simp: openai_categorization_def openai_try_def Let_def
           split: option.splits sum.splits list.splits)

theorem openai_categorization_outcome_witness:
  "openai_categorization offline ''uber ride'' None = Inr ''Transport'' \<and>
   openai_categorization (remote reply_timeout) ''uber ride'' None = Inr ''Transport'' \<and>
   openai_categorization (remote reply_empty) ''uber ride'' None = Inr ''Transport'' \<and>
   openai_categorization (remote reply_food) ''uber ride'' None = Inr ''Food'' \<and>
   openai_categorization (remote reply_travel) ''uber ride'' None = Inr ''Others''"
proof -
  have r: "rule_based_categorization ''uber ride'' = ''Transport''"
    by code_simp
  have s1: "str_strip ('' Food'' @ [CHR 0x0A]) = ''Food''"
    by code_simp
  have s2: "str_strip ''Travel'' = ''Travel''"
    by code_simp
  have c1: "''Food'' \<in> set categories" and c2: "''Travel'' \<notin> set categories"
    by (simp_all add: categories_def)
  have 1: "openai_categorization offline ''uber ride'' None = Inr ''Transport''"
    using openai_categorization_outcome [of offline "''uber ride''" None] r
    by (simp add: offline_def with_client_def)
  have 2: "openai_categorization (remote reply_timeout) ''uber ride'' None
             = Inr ''Transport''"
    using openai_categorization_outcome [of "remote reply_timeout" "''uber ride''" None] r
    by (simp add: remote_def with_client_def reply_timeout_def)
  have 3: "openai_categorization (remote reply_empty) ''uber ride'' None
             = Inr ''Transport''"
    using openai_categorization_outcome [of "remote reply_empty" "''uber ride''" None] r
    by (simp add: remote_def with_client_def reply_empty_def)
  have 4: "openai_categorization (remote reply_food) ''uber ride'' None = Inr ''Food''"
    using openai_categorization_outcome [of "remote reply_food" "''uber ride''" None]
      s1 c1
    by (simp add: remote_def with_client_def reply_food_def)
  have 5: "openai_categorization (remote reply_travel) ''uber ride'' None
             = Inr ''Others''"
    using openai_categorization_outcome [of "remote reply_travel" "''uber ride''" None]
      s2 c2
    by (simp add: remote_def with_client_def reply_travel_def)
  from 1 2 3 4 5 show ?thesis
    by simp
qed

text \<open>
  C1 as stated fails: the service answers \<open>Travel\<close>, which is not a category; the result
  is \<open>Others\<close>, while the rule classifier gives \<open>Transport\<close> for the same description.
\<close>

theorem openai_invalid_answer_counterexample:
  "''Travel'' \<notin> set categories \<and>
   openai_categorization (remote reply_travel) ''uber ride'' None = Inr ''Others'' \<and>
   rule_based_categorization ''uber ride'' = ''Transport''"
  by code_simp

section \<open>The statistical classifier\<close>

text \<open>
  C4 (amended). On fewer than 20 rows \<open>train_ml_model\<close> returns \<open>False\<close> and leaves
  every slot as it was. On 20 rows or more it never returns \<open>False\<close>. When it returns
  \<open>True\<close>, the library calls all succeeded and the two slots hold the vectorizer and the
  classifier fitted by this call, everything else unchanged.
\<close>

theorem train_ml_model_outcome:
  "(length df < 20 \<longrightarrow> train_ml_model sk self df = (Inr False, self)) \<and>
   (20 \<le> length df \<longrightarrow> fst (train_ml_model sk self df) \<noteq> Inr False) \<and>
   (fst (train_ml_model sk self df) = Inr True \<longrightarrow>
      (\<exists>fitted Xv Xtr Xte ytr yte predict.
         fit_transform sk (map description df) = Inr (fitted, Xv) \<and>
         train_test_split sk Xv (map category df) = Inr (Xtr, Xte, ytr, yte) \<and>
         fit sk Xtr ytr = Inr predict \<and>
         snd (train_ml_model sk self df)
           = self\<lparr>vectorizer := Some fitted, ml_model := Some predict\<rparr>))"
  by (auto simp: train_ml_model_def Let_def split: sum.splits prod.splits)

theorem train_ml_model_outcome_witness:
  "train_ml_model toy_sklearn (with_client None) (take 19 groceries20)
     = (Inr False, with_client None) \<and>
   fst (train_ml_model toy_sklearn (with_client None) groceries20) = Inr True \<and>
   vectorizer (snd (train_ml_model toy_sklearn (with_client None) groceries20)) \<noteq> None \<and>
   ml_model (snd (train_ml_model toy_sklearn (with_client None) groceries20)) \<noteq> None"
proof -
  have short: "length (take 19 groceries20) < 20"
    by (simp add: groceries20_def)
  have ok: "fst (train_ml_model toy_sklearn (with_client None) groceries20) = Inr True"
    by code_simp
  have long: "20 \<le> length groceries20"
    by (simp add: groceries20_def)
  have 1: "train_ml_model toy_sklearn (with_client None) (take 19 groceries20)
             = (Inr False, with_client None)"
    using train_ml_model_outcome [of "take 19 groceries20" toy_sklearn "with_client None"] short
    by blast
  have 2: "vectorizer (snd (train_ml_model toy_sklearn (with_client None) groceries20)) \<noteq> None \<and>
           ml_model (snd (train_ml_model toy_sklearn (with_client None) groceries20)) \<noteq> None"
    using train_ml_model_outcome [of groceries20 toy_sklearn "with_client None"] ok long
    by auto
  from 1 ok 2 show ?thesis
    by simp
qed

text \<open>
  C4 as stated fails: on twenty rows whose descriptions are all empty, fitting the
  vectorizer raises; the call fails, the vectorizer slot already holds the new unfitted
  vectorizer, and the classifier slot is the old one.
\<close>

theorem train_partial_update_counterexample:
  "fst (train_ml_model toy_sklearn (with_client None) blank20)
     = Inl (ValueError ''empty vocabulary'') \<and>
   vectorizer (snd (train_ml_model toy_sklearn (with_client None) blank20))
     \<noteq> vectorizer (with_client None :: string list categorizer) \<and>
   ml_model (snd (train_ml_model toy_sklearn (with_client None) blank20))
     = ml_model (with_client None :: string list categorizer)"
proof -
  have len: "\<not> length blank20 < 20"
    by (simp add: blank20_def)
  have ft: "fit_transform toy_sklearn (map description blank20)
              = Inl (ValueError ''empty vocabulary'')"
    by (simp add: toy_sklearn_def blank20_def row_def)
  show ?thesis
    by (simp add: train_ml_model_def len ft with_client_def)
qed

section \<open>The orchestrator\<close>







section \<open>The analytics\<close>









lemma threshold_few: "length xs < 2 \<Longrightarrow> anomaly_threshold fp xs = NaN"
  by (cases "series_mean fp xs") (simp_all add: anomaly_threshold_def series_std_def Let_def)


















lemma count_list_map_filter:
  "count_list (map f xs) k = length (filter (\<lambda>x. f x = k) xs)"
  by (induction xs) auto

lemma groupby_size_set:
  "set (groupby_size keys) = {(k, n). k \<in> set keys \<and> n = count_list keys k}"
  by (auto simp: groupby_size_def)

lemma groupby_size_keys:
  "distinct (map fst (groupby_size keys))" "sorted (map fst (groupby_size keys))"
  by (simp_all add: groupby_size_def comp_def)

text \<open>
  C8. Recurring detection returns one entry per pair of description and amount whose
  number of rows is strictly greater than 2, with that number, and nothing else; it
  never raises and leaves its frame as it was.
\<close>

theorem detect_recurring_transactions_groups:
  "\<exists>groups. detect_recurring_transactions df = (Inr groups, df) \<and>
      distinct (map fst groups) \<and>
      set groups = {((d, a), n). n = length (filter (\<lambda>r. description r = d \<and> amount r = a) df) \<and> n > 2}"
proof -
  let ?keys = "map (\<lambda>row. (description row, amount row)) df"
  let ?groups = "filter (\<lambda>(k, n). n > 2) (groupby_size ?keys)"
  have 1: "detect_recurring_transactions df = (Inr ?groups, df)"
    by (simp add: detect_recurring_transactions_def)
  have 2: "distinct (map fst ?groups)"
    using groupby_size_keys(1) [of ?keys] by (simp add: distinct_map_filter)
  have cnt: "count_list ?keys (d, a) = length (filter (\<lambda>r. description r = d \<and> amount r = a) df)"
    for d a
    by (simp add: count_list_map_filter)
  have "set ?groups = {(k, n). k \<in> set ?keys \<and> n = count_list ?keys k \<and> n > 2}"
    by (auto simp: groupby_size_set)
  also have "\<dots> = {(k, n). n = count_list ?keys k \<and> n > 2}"
    using count_list_0_iff [of ?keys] by force
  also have "\<dots> = {((d, a), n). n = length (filter (\<lambda>r. description r = d \<and> amount r = a) df) \<and> n > 2}"
    using cnt by auto
  finally show ?thesis
    using 1 2 by blast
qed

theorem detect_recurring_transactions_groups_witness:
  "\<exists>groups. detect_recurring_transactions coffee_and_tea = (Inr groups, coffee_and_tea) \<and>
      ((''Coffee'', 5), 3) \<in> set groups \<and> ((''Tea'', 3), 2) \<notin> set groups"
proof -
  obtain groups where
    g: "detect_recurring_transactions coffee_and_tea = (Inr groups, coffee_and_tea)" and
    s: "set groups = {((d, a), n).
          n = length (filter (\<lambda>r. description r = d \<and> amount r = a) coffee_and_tea) \<and> n > 2}"
    using detect_recurring_transactions_groups [of coffee_and_tea] by blast
  have "((''Coffee'', 5), 3) \<in> set groups" "((''Tea'', 3), 2) \<notin> set groups"
    unfolding s by (simp_all add: coffee_and_tea_def row_def)
  with g show ?thesis
    by (intro exI [of _ groups]) simp
qed

text \<open>
  C6 (the code at the failing input). Anomaly detection on a frame whose date cell is the
  text \<open>2024-01-15\<close> returns no anomaly and leaves the caller's frame with the parsed
  timestamp in the date column: the frame is not what it was. On a date cell that cannot
  be parsed the call raises. Both hold whatever the double arithmetic computes.
\<close>

theorem anomalies_overwrite_dates:
  "detect_spending_anomalies fp one_parse [dated ''2024-01-15'']
     = (Inr [], [(dated ''2024-01-15'')\<lparr>date := Timestamp 1705276800\<rparr>]) \<and>
   [(dated ''2024-01-15'')\<lparr>date := Timestamp 1705276800\<rparr>] \<noteq> [dated ''2024-01-15''] \<and>
   fst (detect_spending_anomalies fp one_parse [dated ''soon'']) = Inl (LibraryError ''to_datetime'')"
  by (simp add: detect_spending_anomalies_def dated_def one_parse_def to_datetime_def
        set_date_def threshold_few)

section \<open>Batch classification\<close>










section \<open>The normalizer\<close>








lemma select_columns_set:
  "set (select_columns labels cols) = {col \<in> set cols. fst col \<in> set labels}"
  by (auto simp: select_columns_def)

lemma filter_single_label:
  "distinct (filter (\<lambda>l. l \<in> S) (map fst cols)) \<Longrightarrow> k \<in> S \<Longrightarrow> k \<in> fst ` set cols \<Longrightarrow>
     map fst (filter (\<lambda>col. fst col = k) cols) = [k]"
proof (induction cols)
  case Nil
  then show ?case by simp
next
  case (Cons col cols)
  show ?case
  proof (cases "fst col = k")
    case True
    with Cons.prems have "k \<notin> fst ` set cols"
      by auto
    then have "filter (\<lambda>col. fst col = k) cols = []"
      by (auto simp: filter_empty_conv)
    with True show ?thesis by simp
  next
    case False
    with Cons show ?thesis
      by (auto split: if_splits)
  qed
qed

lemma concat_singletons: "(\<forall>k \<in> set ks. f k = [k]) \<Longrightarrow> concat (map f ks) = ks"
  by (induction ks) auto

lemma select_columns_labels:
  assumes "distinct (filter (\<lambda>l. l \<in> set labels) (map fst cols))"
      and "set labels \<subseteq> fst ` set cols"
  shows "map fst (select_columns labels cols) = labels"
proof -
  have "map fst (filter (\<lambda>col. fst col = k) cols) = [k]" if "k \<in> set labels" for k
    using filter_single_label [OF assms(1) that] assms(2) that by blast
  then have "concat (map (\<lambda>k. map fst (filter (\<lambda>col. fst col = k) cols)) labels) = labels"
    by (intro concat_singletons) simp
  then show ?thesis
    by (simp add: select_columns_def map_concat comp_def)
qed

lemma standardize_columns_Inr:
  assumes "fst (standardize_columns df) = Inr out"
  shows "out = select_columns required_columns
                 (map (\<lambda>(label, cells). (rename (str_strip (str_lower label)), cells)) df)"
    and "set required_columns \<subseteq> (\<lambda>(label, cells). rename (str_strip (str_lower label))) ` set df"
proof -
  let ?df2 = "map (\<lambda>(label, cells). (rename label, cells))
                (map (\<lambda>(label, cells). (str_strip (str_lower label), cells)) df)"
  have df2: "?df2 = map (\<lambda>(label, cells). (rename (str_strip (str_lower label)), cells)) df"
    by (induction df) auto
  have img: "set (map fst ?df2) = (\<lambda>(label, cells). rename (str_strip (str_lower label))) ` set df"
    unfolding df2 by force
  from assms have ne: "df \<noteq> []"
    unfolding standardize_columns_def by (simp split: if_splits)
  from assms ne have none: "filter (\<lambda>col. col \<notin> set (map fst ?df2)) required_columns = []"
    unfolding standardize_columns_def Let_def by (simp split: if_splits)
  then show "set required_columns \<subseteq> (\<lambda>(label, cells). rename (str_strip (str_lower label))) ` set df"
    unfolding img [symmetric] by (auto simp: filter_empty_conv)
  from assms none ne show "out = select_columns required_columns
                 (map (\<lambda>(label, cells). (rename (str_strip (str_lower label)), cells)) df)"
    unfolding standardize_columns_def Let_def df2 [symmetric] by (simp split: if_splits)
qed

text \<open>
  C10 (amended). When \<open>standardize_columns\<close> returns a frame, the labels of its columns
  are exactly the four canonical names; its columns are exactly the input columns whose
  label resolves to a canonical name, so every other input column is absent; and when no
  two input columns resolve to the same canonical name, the frame has exactly four
  columns, in the order date, description, category, amount.
\<close>

theorem standardize_columns_output:
  assumes "fst (standardize_columns df) = Inr out"
  shows "set (map fst out) = set required_columns \<and>
         set out = {col \<in> set (map (\<lambda>(label, cells). (rename (str_strip (str_lower label)), cells)) df).
                      fst col \<in> set required_columns} \<and>
         (distinct (filter (\<lambda>l. l \<in> set required_columns)
                      (map (\<lambda>(label, cells). rename (str_strip (str_lower label))) df))
            \<longrightarrow> map fst out = required_columns)"
proof -
  let ?cols = "map (\<lambda>(label, cells). (rename (str_strip (str_lower label)), cells)) df"
  note out = standardize_columns_Inr(1) [OF assms]
  note req = standardize_columns_Inr(2) [OF assms]
  have labels: "map fst ?cols = map (\<lambda>(label, cells). rename (str_strip (str_lower label))) df"
    by (induction df) auto
  have img: "fst ` set ?cols = (\<lambda>(label, cells). rename (str_strip (str_lower label))) ` set df"
    by force
  have 2: "set out = {col \<in> set ?cols. fst col \<in> set required_columns}"
    unfolding out by (rule select_columns_set)
  have "fst ` {col \<in> set ?cols. fst col \<in> set required_columns} = set required_columns"
    using req unfolding img [symmetric] by force
  then have 1: "set (map fst out) = set required_columns"
    unfolding set_map 2 .
  have 3: "map fst out = required_columns"
    if "distinct (filter (\<lambda>l. l \<in> set required_columns)
                      (map (\<lambda>(label, cells). rename (str_strip (str_lower label))) df))"
    unfolding out
    using that req by (intro select_columns_labels) (simp_all only: labels img)
  from 1 2 3 show ?thesis
    by blast
qed

theorem standardize_columns_output_witness:
  "fst (standardize_columns full_frame)
     = Inr [(''date'', 5), (''description'', 3), (''category'', 6), (''amount'', 2)] \<and>
   map fst [(''date'', 5 :: nat), (''description'', 3), (''category'', 6), (''amount'', 2)]
     = required_columns"
proof -
  have run: "fst (standardize_columns full_frame)
     = Inr [(''date'', 5), (''description'', 3), (''category'', 6), (''amount'', 2)]"
    by code_simp
  have d: "distinct (filter (\<lambda>l. l \<in> set required_columns)
                      (map (\<lambda>(label, cells). rename (str_strip (str_lower label))) full_frame))"
    by code_simp
  from standardize_columns_output [OF run] d run show ?thesis
    by simp
qed

text \<open>
  C10 as stated fails: the labels \<open>Date\<close> and \<open>date\<close> both resolve to \<open>date\<close>, and the
  result has five columns, two of them labelled \<open>date\<close>.
\<close>

theorem standardize_columns_duplicate_counterexample:
  "fst (standardize_columns two_dates_frame)
     = Inr [(''date'', 1), (''date'', 2), (''description'', 3), (''category'', 4), (''amount'', 5)]"
  by code_simp

end
